theory Spec2Isabelle
  imports Main "HOL-Library.AList" "HOL-Library.Sublist"
begin

section \<open>Data model (types.ts)\<close>

text \<open>
  Strings are \<^typ>\<open>string\<close>. A JavaScript number that holds a timestamp
  (\<^verbatim>\<open>Date.now()\<close>, \<^verbatim>\<open>getTime()\<close>) is an \<^typ>\<open>int\<close>; the one place where the
  source can meet \<^verbatim>\<open>NaN\<close> (the time of an unparseable date string) is an
  \<^typ>\<open>int option\<close> with \<^term>\<open>None\<close> for \<^verbatim>\<open>NaN\<close>.
\<close>

record DevotionalContent =
  date :: string
  passageReference :: string
  scriptureText :: string
  reflection :: string
  morningPrayer :: string
  eveningPrayer :: string
  quote :: string
  quoteAuthor :: string
  relatedVerseReference :: string
  relatedVerseText :: string
  customPassageText :: "string option"
  customRelatedVerseText :: "string option"

datatype LoadingState = IDLE | LOADING | SUCCESS | ERROR

datatype Theme = light | sepia | dark

datatype SyncStatus = synced | syncing | error | offline

record Preferences =
  theme :: Theme

record Progress =
  completedDates :: "string list"

record UserProfile =
  preferences :: Preferences
  progress :: Progress
  lastSyncedAt :: int

text \<open>
  \<^verbatim>\<open>Partial<DevotionalContent>\<close>: every field may be supplied or left out. For the
  two optional fields a supplied value may itself be \<^verbatim>\<open>undefined\<close>.
\<close>

record PartialContent =
  p_date :: "string option"
  p_passageReference :: "string option"
  p_scriptureText :: "string option"
  p_reflection :: "string option"
  p_morningPrayer :: "string option"
  p_eveningPrayer :: "string option"
  p_quote :: "string option"
  p_quoteAuthor :: "string option"
  p_relatedVerseReference :: "string option"
  p_relatedVerseText :: "string option"
  p_customPassageText :: "string option option"
  p_customRelatedVerseText :: "string option option"

section \<open>The JavaScript operations the code relies on\<close>

subsection \<open>Object spread\<close>

text \<open>One property of \<^verbatim>\<open>{ ...a, ...b }\<close>: the value of \<open>b\<close> where \<open>b\<close> has the property.\<close>

definition override :: "'a \<Rightarrow> 'a option \<Rightarrow> 'a" where
  "override old new = (case new of None \<Rightarrow> old | Some v \<Rightarrow> v)"

text \<open>\<^verbatim>\<open>{ ...content, ...updatedFields }\<close>\<close>

definition spread :: "DevotionalContent \<Rightarrow> PartialContent \<Rightarrow> DevotionalContent" where
  "spread c u =
     \<lparr> date = override (date c) (p_date u),
       passageReference = override (passageReference c) (p_passageReference u),
       scriptureText = override (scriptureText c) (p_scriptureText u),
       reflection = override (reflection c) (p_reflection u),
       morningPrayer = override (morningPrayer c) (p_morningPrayer u),
       eveningPrayer = override (eveningPrayer c) (p_eveningPrayer u),
       quote = override (quote c) (p_quote u),
       quoteAuthor = override (quoteAuthor c) (p_quoteAuthor u),
       relatedVerseReference = override (relatedVerseReference c) (p_relatedVerseReference u),
       relatedVerseText = override (relatedVerseText c) (p_relatedVerseText u),
       customPassageText = override (customPassageText c) (p_customPassageText u),
       customRelatedVerseText =
         override (customRelatedVerseText c) (p_customRelatedVerseText u) \<rparr>"

text \<open>
  A \<^verbatim>\<open>Record<string, DevotionalContent>\<close> is an association list in property order.
  The keys are date strings (never array indices), so the order is the order of creation:
  \<^verbatim>\<open>{ ...prev, [key]: v }\<close> replaces the value of an existing key in place and appends a
  new key, which is \<^const>\<open>AList.update\<close>; \<^verbatim>\<open>obj[key]\<close> is \<^const>\<open>map_of\<close>;
  \<^verbatim>\<open>Object.values\<close> is \<^term>\<open>map snd\<close>.
\<close>

type_synonym Cache = "(string \<times> DevotionalContent) list"

definition Object_values :: "Cache \<Rightarrow> DevotionalContent list" where
  "Object_values c = map snd c"

subsection \<open>Set and Array.from\<close>

text \<open>\<^verbatim>\<open>Set.prototype.add\<close> on the set's insertion-ordered elements.\<close>

definition Set_add :: "'a list \<Rightarrow> 'a \<Rightarrow> 'a list" where
  "Set_add s x = (if x \<in> set s then s else s @ [x])"

text \<open>\<^verbatim>\<open>Array.from(new Set(xs))\<close>: the first occurrence of each element, in order.\<close>

definition Array_from_Set :: "'a list \<Rightarrow> 'a list" where
  "Array_from_Set xs = foldl Set_add [] xs"

subsection \<open>Strings\<close>

text \<open>Characters are the ASCII range of the source's UTF-16 code units.\<close>

definition lowerChar :: "char \<Rightarrow> char" where
  "lowerChar c =
     (let n = (of_char c :: nat) in if 65 \<le> n \<and> n \<le> 90 then char_of (n + 32) else c)"

definition toLowerCase :: "string \<Rightarrow> string" where
  "toLowerCase s = map lowerChar s"

definition isWhiteSpace :: "char \<Rightarrow> bool" where
  "isWhiteSpace c = ((of_char c :: nat) \<in> {9, 10, 11, 12, 13, 32})"

definition trim :: "string \<Rightarrow> string" where
  "trim s = rev (dropWhile isWhiteSpace (rev (dropWhile isWhiteSpace s)))"

text \<open>\<^verbatim>\<open>s.includes(q)\<close>\<close>

fun str_includes :: "string \<Rightarrow> string \<Rightarrow> bool" where
  "str_includes [] q = (q = [])"
| "str_includes (c # cs) q = (prefix q (c # cs) \<or> str_includes cs q)"

subsection \<open>Array.prototype.sort\<close>

text \<open>
  The abstract operation SortCompare of the language: a comparator result of \<^verbatim>\<open>NaN\<close>
  counts as \<open>+0\<close>.
\<close>

definition SortCompare :: "('a \<Rightarrow> 'a \<Rightarrow> int option) \<Rightarrow> 'a \<Rightarrow> 'a \<Rightarrow> int" where
  "SortCompare comparefn x y = (case comparefn x y of None \<Rightarrow> 0 | Some v \<Rightarrow> v)"

text \<open>
  The sort is stable. It is modelled by a stable insertion sort: an element goes before
  the first element that it does not compare greater than.
\<close>

fun insertBy :: "('a \<Rightarrow> 'a \<Rightarrow> int) \<Rightarrow> 'a \<Rightarrow> 'a list \<Rightarrow> 'a list" where
  "insertBy cmp x [] = [x]"
| "insertBy cmp x (y # ys) = (if cmp x y \<le> 0 then x # y # ys else y # insertBy cmp x ys)"

definition Array_sort :: "('a \<Rightarrow> 'a \<Rightarrow> int option) \<Rightarrow> 'a list \<Rightarrow> 'a list" where
  "Array_sort comparefn xs = foldr (insertBy (SortCompare comparefn)) xs []"

subsection \<open>Date\<close>

text \<open>
  The code reads a \<^verbatim>\<open>Date\<close> only through \<^verbatim>\<open>toDateString()\<close> (the cache and completion
  key) and \<^verbatim>\<open>toLocaleDateString('en-US', ...)\<close> (the descriptor sent to the fetcher), so
  a \<^verbatim>\<open>Date\<close> is the pair of these two renderings.
\<close>

datatype Date = Date (toDateString: string) (toLocaleDateString: string)

text \<open>dateUtils: \<^verbatim>\<open>formatDateFull\<close>\<close>

definition formatDateFull :: "Date \<Rightarrow> string" where
  "formatDateFull d = toLocaleDateString d"

section \<open>syncService.ts\<close>

text \<open>\<^verbatim>\<open>mergeProfiles(local, cloud)\<close>; the clock \<^verbatim>\<open>Date.now()\<close> is the argument \<open>now\<close>.\<close>

definition mergeProfiles :: "UserProfile \<Rightarrow> UserProfile \<Rightarrow> int \<Rightarrow> UserProfile" where
  "mergeProfiles local cloud now =
     (let mergedDates =
            Array_from_Set (Progress.completedDates (progress local) @
                            Progress.completedDates (progress cloud));
          useCloudSettings = (lastSyncedAt cloud > lastSyncedAt local)
      in \<lparr> preferences =
             \<lparr> Preferences.theme =
                 (if useCloudSettings then Preferences.theme (preferences cloud)
                  else Preferences.theme (preferences local)) \<rparr>,
           progress = \<lparr> Progress.completedDates = mergedDates \<rparr>,
           lastSyncedAt = now \<rparr>)"

text \<open>
  \<^verbatim>\<open>defaultProfile\<close> (its timestamp is the clock when the module is loaded) and
  \<^verbatim>\<open>loadData\<close>: \<open>stored\<close> is the profile parsed from local storage, \<^term>\<open>None\<close> when
  there is no item or when reading or parsing it throws.
\<close>

definition defaultProfile :: "int \<Rightarrow> UserProfile" where
  "defaultProfile now =
     \<lparr> preferences = \<lparr> Preferences.theme = light \<rparr>,
       progress = \<lparr> Progress.completedDates = [] \<rparr>,
       lastSyncedAt = now \<rparr>"

definition loadData :: "UserProfile option \<Rightarrow> int \<Rightarrow> UserProfile" where
  "loadData stored now = (case stored of Some profile \<Rightarrow> profile | None \<Rightarrow> defaultProfile now)"

section \<open>geminiService.ts\<close>

text \<open>
  The outcome of \<^verbatim>\<open>ai.models.generateContent\<close>: the call rejects, or it resolves with a
  response whose \<^verbatim>\<open>text\<close> may be undefined.
\<close>

datatype ai_response = Rejected | Response "string option"

datatype fetch_error = NetworkError | EmptyResponse | SyntaxError

text \<open>
  The object \<^verbatim>\<open>JSON.parse\<close> returns for a text that parses. The request constrains the
  response to \<^verbatim>\<open>devotionalSchema\<close>, whose nine string properties are all required, and
  the model takes a parsed text to be such an object. The source returns
  \<^verbatim>\<open>{ date: dateStr, ...data }\<close> without validating \<^verbatim>\<open>data\<close>: a text that parses to
  something else (\<^verbatim>\<open>{}\<close>, \<^verbatim>\<open>null\<close>, an object with a \<^verbatim>\<open>date\<close> property, which would
  replace \<^verbatim>\<open>dateStr\<close>) is outside the model. Only the success branch depends on this.
\<close>

record SchemaFields =
  s_passageReference :: string
  s_scriptureText :: string
  s_reflection :: string
  s_morningPrayer :: string
  s_eveningPrayer :: string
  s_quote :: string
  s_quoteAuthor :: string
  s_relatedVerseReference :: string
  s_relatedVerseText :: string

text \<open>
  \<^verbatim>\<open>fetchDevotionalForDate(dateStr)\<close>, given the parser (\<^term>\<open>None\<close> where
  \<^verbatim>\<open>JSON.parse\<close> throws) and the outcome of the request. The \<^verbatim>\<open>catch\<close> rethrows, so
  every failure is a rejection of the returned promise.
\<close>

definition fetchDevotionalForDate ::
  "(string \<Rightarrow> SchemaFields option) \<Rightarrow> string \<Rightarrow> ai_response \<Rightarrow> fetch_error + DevotionalContent"
where
  "fetchDevotionalForDate JSON_parse dateStr response =
     (case response of
        Rejected \<Rightarrow> Inl NetworkError
      | Response jsonText \<Rightarrow>
          (case jsonText of
             None \<Rightarrow> Inl EmptyResponse
           | Some t \<Rightarrow>
               if t = [] then Inl EmptyResponse
               else (case JSON_parse t of
                       None \<Rightarrow> Inl SyntaxError
                     | Some d \<Rightarrow>
                         Inr \<lparr> date = dateStr,
                               passageReference = s_passageReference d,
                               scriptureText = s_scriptureText d,
                               reflection = s_reflection d,
                               morningPrayer = s_morningPrayer d,
                               eveningPrayer = s_eveningPrayer d,
                               quote = s_quote d,
                               quoteAuthor = s_quoteAuthor d,
                               relatedVerseReference = s_relatedVerseReference d,
                               relatedVerseText = s_relatedVerseText d,
                               customPassageText = None,
                               customRelatedVerseText = None \<rparr>)))"

section \<open>The App component\<close>

text \<open>
  The component's state variables that the cache, the profile, the sync status and the
  search depend on (the layout flags \<^verbatim>\<open>sidebarOpen\<close>, \<^verbatim>\<open>isFullScreen\<close> and
  \<^verbatim>\<open>showAbout\<close> are left out).
\<close>

record AppState =
  currentDate :: Date
  content :: "DevotionalContent option"
  loadingState :: LoadingState
  completedDates :: "string list"
  theme :: Theme
  syncStatus :: SyncStatus
  initialLoadComplete :: bool
  cache :: Cache
  isSearchMode :: bool
  searchQuery :: string

text \<open>The state of the first render: the \<^verbatim>\<open>useState\<close> initial values.\<close>

definition initialState :: AppState where
  "initialState =
     \<lparr> currentDate = Date ''Thu Jan 01 2026'' ''Thursday, January 1, 2026'',
       content = None,
       loadingState = IDLE,
       completedDates = [],
       theme = light,
       syncStatus = synced,
       initialLoadComplete = False,
       cache = [],
       isSearchMode = False,
       searchQuery = [] \<rparr>"

subsection \<open>Initialisation\<close>

text \<open>\<^verbatim>\<open>initApp\<close> with the profile that \<^verbatim>\<open>loadData\<close> resolves to.\<close>

definition initApp :: "UserProfile \<Rightarrow> AppState \<Rightarrow> AppState" where
  "initApp profile st =
     st\<lparr>completedDates := Progress.completedDates (progress profile),
        theme := Preferences.theme (preferences profile),
        initialLoadComplete := True\<rparr>"

subsection \<open>Sync status\<close>

definition handleOnline :: "AppState \<Rightarrow> AppState" where
  "handleOnline st = st\<lparr>syncStatus := synced\<rparr>"

definition handleOffline :: "AppState \<Rightarrow> AppState" where
  "handleOffline st = st\<lparr>syncStatus := offline\<rparr>"

text \<open>
  \<^verbatim>\<open>persistChanges\<close> up to its \<^verbatim>\<open>await\<close>; \<open>onLine\<close> is \<^verbatim>\<open>navigator.onLine\<close> at that
  moment.
\<close>

definition persistChanges :: "bool \<Rightarrow> AppState \<Rightarrow> AppState" where
  "persistChanges onLine st =
     (if \<not> onLine then st\<lparr>syncStatus := offline\<rparr> else st\<lparr>syncStatus := syncing\<rparr>)"

text \<open>The outcome of \<^verbatim>\<open>syncService.saveData\<close>: it resolves, or it rethrows a storage error.\<close>

datatype save_outcome = Saved | SaveFailed

text \<open>\<^verbatim>\<open>persistChanges\<close> from its \<^verbatim>\<open>await\<close> on, with \<^verbatim>\<open>navigator.onLine\<close> of that moment.\<close>

definition persistChanges_settled :: "bool \<Rightarrow> save_outcome \<Rightarrow> AppState \<Rightarrow> AppState" where
  "persistChanges_settled onLine outcome st =
     (case outcome of
        Saved \<Rightarrow> (if onLine then st\<lparr>syncStatus := synced\<rparr> else st)
      | SaveFailed \<Rightarrow> st\<lparr>syncStatus := error\<rparr>)"

text \<open>
  The effect that saves the profile after a render in which the theme, the completed dates
  or \<^verbatim>\<open>initialLoadComplete\<close> has changed.
\<close>

definition sync_effect :: "bool \<Rightarrow> AppState \<Rightarrow> AppState" where
  "sync_effect onLine st = (if \<not> initialLoadComplete st then st else persistChanges onLine st)"

subsection \<open>Completion toggle\<close>

definition toggleComplete :: "AppState \<Rightarrow> AppState" where
  "toggleComplete st =
     (let key = toDateString (currentDate st);
          newCompleted =
            (if key \<in> set (completedDates st)
             then filter (\<lambda>d. d \<noteq> key) (completedDates st)
             else completedDates st @ [key])
      in st\<lparr>completedDates := newCompleted\<rparr>)"

subsection \<open>Loading the content of a date\<close>

text \<open>
  \<^verbatim>\<open>loadContent(date)\<close> up to its \<^verbatim>\<open>await\<close>: the new state, and the date descriptor
  passed to \<^verbatim>\<open>fetchDevotionalForDate\<close> when the fetcher is called (\<^term>\<open>None\<close> when it
  is not).
\<close>

definition loadContent :: "Date \<Rightarrow> AppState \<Rightarrow> AppState \<times> string option" where
  "loadContent d st =
     (let key = toDateString d
      in case map_of (cache st) key of
           Some c \<Rightarrow> (st\<lparr>content := Some c, loadingState := SUCCESS\<rparr>, None)
         | None \<Rightarrow> (st\<lparr>loadingState := LOADING\<rparr>, Some (formatDateFull d)))"

text \<open>
  \<^verbatim>\<open>loadContent(date)\<close> from its \<^verbatim>\<open>await\<close> on, run on the state of the moment the
  fetch settles: the \<^verbatim>\<open>try\<close> branch on a resolved fetch, the \<^verbatim>\<open>catch\<close> branch on a
  rejected one.
\<close>

definition loadContent_settled ::
  "Date \<Rightarrow> fetch_error + DevotionalContent \<Rightarrow> AppState \<Rightarrow> AppState" where
  "loadContent_settled d outcome st =
     (let key = toDateString d
      in case outcome of
           Inr data \<Rightarrow>
             st\<lparr>cache := AList.update key data (cache st),
                content := Some data,
                loadingState := SUCCESS\<rparr>
         | Inl err \<Rightarrow> st\<lparr>loadingState := ERROR\<rparr>)"

text \<open>
  The effect \<^verbatim>\<open>useEffect(() => loadContent(currentDate), [currentDate, loadContent])\<close>.
  \<^verbatim>\<open>loadContent\<close> is rebuilt when \<^verbatim>\<open>cache\<close> changes, so the effect runs after a render
  in which the selected date or the cache has changed.
\<close>

definition loadContent_effect :: "AppState \<Rightarrow> AppState \<times> string option" where
  "loadContent_effect st = loadContent (currentDate st) st"

definition handleDateSelect :: "Date \<Rightarrow> AppState \<Rightarrow> AppState" where
  "handleDateSelect d st = st\<lparr>currentDate := d, isSearchMode := False, searchQuery := []\<rparr>"

text \<open>Selecting a date: the handler, then the effect of the render that follows.\<close>

definition selectDate :: "Date \<Rightarrow> AppState \<Rightarrow> AppState \<times> string option" where
  "selectDate d st = loadContent_effect (handleDateSelect d st)"

text \<open>
  A fetch settles: the rest of \<^verbatim>\<open>loadContent\<close>, whose state updates are applied together in
  one render, then the effect when the cache has changed (a resolved fetch writes the
  cache, a rejected one does not).
\<close>

definition fetchSettled ::
  "Date \<Rightarrow> fetch_error + DevotionalContent \<Rightarrow> AppState \<Rightarrow> AppState \<times> string option" where
  "fetchSettled d outcome st =
     (let st' = loadContent_settled d outcome st
      in case outcome of
           Inr data \<Rightarrow> loadContent_effect st'
         | Inl err \<Rightarrow> (st', None))"

subsection \<open>Editing the displayed content\<close>

definition handleContentUpdate :: "PartialContent \<Rightarrow> AppState \<Rightarrow> AppState" where
  "handleContentUpdate updatedFields st =
     (case content st of
        None \<Rightarrow> st
      | Some c \<Rightarrow>
          (let updatedContent = spread c updatedFields;
               key = toDateString (currentDate st)
           in st\<lparr>content := Some updatedContent,
                 cache := AList.update key updatedContent (cache st)\<rparr>))"

subsection \<open>Search\<close>

text \<open>The filter predicate of \<^verbatim>\<open>searchResults\<close>; an empty string is falsy.\<close>

definition matchesQuery :: "string \<Rightarrow> DevotionalContent \<Rightarrow> bool" where
  "matchesQuery lowerQuery item =
     (str_includes (toLowerCase (passageReference item)) lowerQuery \<or>
      str_includes (toLowerCase (scriptureText item)) lowerQuery \<or>
      str_includes (toLowerCase (reflection item)) lowerQuery \<or>
      str_includes (toLowerCase (morningPrayer item)) lowerQuery \<or>
      str_includes (toLowerCase (eveningPrayer item)) lowerQuery \<or>
      (relatedVerseReference item \<noteq> [] \<and>
       str_includes (toLowerCase (relatedVerseReference item)) lowerQuery) \<or>
      (relatedVerseText item \<noteq> [] \<and>
       str_includes (toLowerCase (relatedVerseText item)) lowerQuery))"

text \<open>
  The comparator \<^verbatim>\<open>new Date(a.date).getTime() - new Date(b.date).getTime()\<close>, given the
  time \<open>getTime\<close> of a date string (\<^term>\<open>None\<close> is \<^verbatim>\<open>NaN\<close>, the time of an invalid
  date); a difference with \<^verbatim>\<open>NaN\<close> is \<^verbatim>\<open>NaN\<close>.
\<close>

definition compareDates ::
  "(string \<Rightarrow> int option) \<Rightarrow> DevotionalContent \<Rightarrow> DevotionalContent \<Rightarrow> int option" where
  "compareDates getTime a b =
     (case (getTime (date a), getTime (date b)) of
        (Some x, Some y) \<Rightarrow> Some (x - y)
      | _ \<Rightarrow> None)"

definition searchResults ::
  "(string \<Rightarrow> int option) \<Rightarrow> Cache \<Rightarrow> string \<Rightarrow> DevotionalContent list" where
  "searchResults getTime cache_now query =
     (if trim query = [] then []
      else (let lowerQuery = toLowerCase query
            in Array_sort (compareDates getTime)
                 (filter (matchesQuery lowerQuery) (Object_values cache_now))))"

section \<open>Vocabulary of the properties\<close>

text \<open>The property names of a \<^typ>\<open>DevotionalContent\<close>, and the value under each.\<close>

datatype Field =
    F_date | F_passageReference | F_scriptureText | F_reflection | F_morningPrayer
  | F_eveningPrayer | F_quote | F_quoteAuthor | F_relatedVerseReference | F_relatedVerseText
  | F_customPassageText | F_customRelatedVerseText

fun fieldOf :: "Field \<Rightarrow> DevotionalContent \<Rightarrow> string option" where
  "fieldOf F_date c = Some (date c)"
| "fieldOf F_passageReference c = Some (passageReference c)"
| "fieldOf F_scriptureText c = Some (scriptureText c)"
| "fieldOf F_reflection c = Some (reflection c)"
| "fieldOf F_morningPrayer c = Some (morningPrayer c)"
| "fieldOf F_eveningPrayer c = Some (eveningPrayer c)"
| "fieldOf F_quote c = Some (quote c)"
| "fieldOf F_quoteAuthor c = Some (quoteAuthor c)"
| "fieldOf F_relatedVerseReference c = Some (relatedVerseReference c)"
| "fieldOf F_relatedVerseText c = Some (relatedVerseText c)"
| "fieldOf F_customPassageText c = customPassageText c"
| "fieldOf F_customRelatedVerseText c = customRelatedVerseText c"

text \<open>Whether an update object has the property.\<close>

fun supplied :: "Field \<Rightarrow> PartialContent \<Rightarrow> bool" where
  "supplied F_date u = (p_date u \<noteq> None)"
| "supplied F_passageReference u = (p_passageReference u \<noteq> None)"
| "supplied F_scriptureText u = (p_scriptureText u \<noteq> None)"
| "supplied F_reflection u = (p_reflection u \<noteq> None)"
| "supplied F_morningPrayer u = (p_morningPrayer u \<noteq> None)"
| "supplied F_eveningPrayer u = (p_eveningPrayer u \<noteq> None)"
| "supplied F_quote u = (p_quote u \<noteq> None)"
| "supplied F_quoteAuthor u = (p_quoteAuthor u \<noteq> None)"
| "supplied F_relatedVerseReference u = (p_relatedVerseReference u \<noteq> None)"
| "supplied F_relatedVerseText u = (p_relatedVerseText u \<noteq> None)"
| "supplied F_customPassageText u = (p_customPassageText u \<noteq> None)"
| "supplied F_customRelatedVerseText u = (p_customRelatedVerseText u \<noteq> None)"

text \<open>
  The order of two entries by the time of their date strings: both dates are valid and
  the first is not later than the second.
\<close>

definition notLaterThan ::
  "(string \<Rightarrow> int option) \<Rightarrow> DevotionalContent \<Rightarrow> DevotionalContent \<Rightarrow> bool" where
  "notLaterThan getTime a b =
     (case (getTime (date a), getTime (date b)) of
        (Some x, Some y) \<Rightarrow> x \<le> y
      | _ \<Rightarrow> False)"

section \<open>Concrete inputs\<close>

definition jan1 :: Date where
  "jan1 = Date ''Thu Jan 01 2026'' ''Thursday, January 1, 2026''"

definition jan2 :: Date where
  "jan2 = Date ''Fri Jan 02 2026'' ''Friday, January 2, 2026''"

definition jan3 :: Date where
  "jan3 = Date ''Sat Jan 03 2026'' ''Saturday, January 3, 2026''"

text \<open>The record the fetcher builds for a date descriptor and a passage.\<close>

definition devotional :: "string \<Rightarrow> string \<Rightarrow> DevotionalContent" where
  "devotional dateStr passage =
     \<lparr> date = dateStr,
       passageReference = passage,
       scriptureText = ''In the beginning God created the heaven and the earth.'',
       reflection = ''Every beginning rests in the hands of the Creator.'',
       morningPrayer = ''Lord, order my day. In Jesus' name, Amen.'',
       eveningPrayer = ''Lord, I rest in You. In Jesus' name, Amen.'',
       quote = ''He who began a good work will complete it.'',
       quoteAuthor = ''Paul'',
       relatedVerseReference = ''John 1:1'',
       relatedVerseText = ''In the beginning was the Word.'',
       customPassageText = None,
       customRelatedVerseText = None \<rparr>"

definition contentJan1 :: DevotionalContent where
  "contentJan1 = devotional ''Thursday, January 1, 2026'' ''Genesis 1-3''"

definition contentJan2 :: DevotionalContent where
  "contentJan2 = devotional ''Friday, January 2, 2026'' ''Genesis 4-7''"

definition contentJan3 :: DevotionalContent where
  "contentJan3 = devotional ''Saturday, January 3, 2026'' ''Genesis 8-11''"

text \<open>The time of a date string, for the three days above (local midnight, UTC).\<close>

definition getTime2026 :: "string \<Rightarrow> int option" where
  "getTime2026 s =
     (if s = ''Thursday, January 1, 2026'' then Some 1767225600000
      else if s = ''Friday, January 2, 2026'' then Some 1767312000000
      else if s = ''Saturday, January 3, 2026'' then Some 1767398400000
      else None)"

text \<open>An update object with the single property \<^verbatim>\<open>customPassageText\<close>.\<close>

definition editPassage :: PartialContent where
  "editPassage =
     \<lparr> p_date = None, p_passageReference = None, p_scriptureText = None,
       p_reflection = None, p_morningPrayer = None, p_eveningPrayer = None,
       p_quote = None, p_quoteAuthor = None, p_relatedVerseReference = None,
       p_relatedVerseText = None,
       p_customPassageText = Some (Some ''And God said, Let there be light.''),
       p_customRelatedVerseText = None \<rparr>"

text \<open>
  The update object that \<^verbatim>\<open>saveEdit\<close> of the display passes for the reflection
  editor: the single property \<^verbatim>\<open>reflection\<close>.
\<close>

definition editReflection :: PartialContent where
  "editReflection =
     \<lparr> p_date = None, p_passageReference = None, p_scriptureText = None,
       p_reflection = Some ''The Creator speaks, and there is light.'',
       p_morningPrayer = None, p_eveningPrayer = None,
       p_quote = None, p_quoteAuthor = None, p_relatedVerseReference = None,
       p_relatedVerseText = None, p_customPassageText = None,
       p_customRelatedVerseText = None \<rparr>"

text \<open>Two profiles without duplicates, and a local profile with a repeated date.\<close>

definition localProfile :: UserProfile where
  "localProfile =
     \<lparr> preferences = \<lparr> Preferences.theme = dark \<rparr>,
       progress = \<lparr> Progress.completedDates = [''Thu Jan 01 2026'', ''Fri Jan 02 2026''] \<rparr>,
       lastSyncedAt = 1767225600000 \<rparr>"

definition cloudProfile :: UserProfile where
  "cloudProfile =
     \<lparr> preferences = \<lparr> Preferences.theme = sepia \<rparr>,
       progress = \<lparr> Progress.completedDates = [''Sat Jan 03 2026'', ''Fri Jan 02 2026''] \<rparr>,
       lastSyncedAt = 1767312000000 \<rparr>"

definition repeatedProfile :: UserProfile where
  "repeatedProfile =
     \<lparr> preferences = \<lparr> Preferences.theme = light \<rparr>,
       progress =
         \<lparr> Progress.completedDates =
             [''Thu Jan 01 2026'', ''Fri Jan 02 2026'', ''Thu Jan 01 2026''] \<rparr>,
       lastSyncedAt = 1767312000000 \<rparr>"

text \<open>
  A run of the component: from the first render, 2 January is selected (its fetch is in
  flight), then 3 January.
\<close>

definition selectedJan2 :: AppState where
  "selectedJan2 = fst (selectDate jan2 initialState)"

definition selectedJan3 :: AppState where
  "selectedJan3 = fst (selectDate jan3 selectedJan2)"

text \<open>A state in which the content of 1 January is loaded from the cache.\<close>

definition loadedJan1 :: AppState where
  "loadedJan1 = fst (fetchSettled jan1 (Inr contentJan1) (fst (loadContent_effect initialState)))"

text \<open>
  With the content of 1 January displayed, 2 January is selected: its fetch is in flight
  and the record of 1 January is still in \<^verbatim>\<open>content\<close>. (The display keeps an editor that
  was opened before the selection open while the new date loads.)
\<close>

definition loadingJan2 :: AppState where
  "loadingJan2 = fst (selectDate jan2 loadedJan1)"

text \<open>
  A run in which a save fails: the default profile is loaded, the component is online,
  and \<^verbatim>\<open>saveData\<close> rethrows a storage error.
\<close>

definition saveFailed :: AppState where
  "saveFailed =
     persistChanges_settled True SaveFailed
       (sync_effect True (initApp (loadData None 0) initialState))"

text \<open>Then 1 January is selected again while the fetch for 2 January is in flight.\<close>

definition backOnJan1 :: AppState where
  "backOnJan1 = fst (selectDate jan1 (fst (selectDate jan2 loadedJan1)))"

text \<open>A cache of three days, created in the order 3, 1, 2 January.\<close>

definition cacheThreeDays :: Cache where
  "cacheThreeDays =
     [(''Sat Jan 03 2026'', contentJan3),
      (''Thu Jan 01 2026'', contentJan1),
      (''Fri Jan 02 2026'', contentJan2)]"

text \<open>
  A parser for the examples: it accepts one text (which stands for the JSON text of the
  fields below) and rejects every other text.
\<close>

definition responseText :: string where
  "responseText = ''{ passageReference: Genesis 4-7, ... }''"

definition responseFields :: SchemaFields where
  "responseFields =
     \<lparr> s_passageReference = ''Genesis 4-7'',
       s_scriptureText = ''And Enoch walked with God.'',
       s_reflection = ''Walking with God is a daily choice.'',
       s_morningPrayer = ''Lord, walk with me. In Jesus' name, Amen.'',
       s_eveningPrayer = ''Lord, keep me. In Jesus' name, Amen.'',
       s_quote = ''Faith is taking the first step.'',
       s_quoteAuthor = ''Unknown'',
       s_relatedVerseReference = ''Hebrews 11:5'',
       s_relatedVerseText = ''By faith Enoch was translated.'' \<rparr>"

definition JSON_parse_example :: "string \<Rightarrow> SchemaFields option" where
  "JSON_parse_example t = (if t = responseText then Some responseFields else None)"

section \<open>Merging profiles\<close>

lemma set_foldl_Set_add: "set (foldl Set_add acc xs) = set acc \<union> set xs"
  by (induction xs arbitrary: acc) (auto simp: Set_add_def)

lemma distinct_foldl_Set_add: "distinct acc \<Longrightarrow> distinct (foldl Set_add acc xs)"
  by (induction xs arbitrary: acc) (auto simp: Set_add_def)

lemma set_Array_from_Set: "set (Array_from_Set xs) = set xs"
  by (simp add: Array_from_Set_def set_foldl_Set_add)

lemma distinct_Array_from_Set: "distinct (Array_from_Set xs)"
  by (simp add: Array_from_Set_def distinct_foldl_Set_add)

lemma mergedDates_eq:
  "Progress.completedDates (progress (mergeProfiles local cloud now)) =
     Array_from_Set (Progress.completedDates (progress local) @
                     Progress.completedDates (progress cloud))"
  by (simp add: mergeProfiles_def)

lemma merged_example:
  "Progress.completedDates (progress (mergeProfiles localProfile cloudProfile now)) =
     [''Thu Jan 01 2026'', ''Fri Jan 02 2026'', ''Sat Jan 03 2026'']"
  by (simp add: mergeProfiles_def localProfile_def cloudProfile_def Array_from_Set_def Set_add_def)

text \<open>
  Claim C5. For all profiles \<open>local\<close> and \<open>cloud\<close>, the completed dates of
  \<open>mergeProfiles local cloud\<close> are, as a set, the union of the completed dates of the two
  sides, so a superset of each; the number of distinct dates is never smaller than that of
  either side; the merged array holds each date once, so its length is that number, and
  it is at least the length of a side that has no repeated date.
\<close>

theorem mergeProfiles_completedDates_union:
  fixes local cloud :: UserProfile and now :: int
  defines "merged \<equiv> Progress.completedDates (progress (mergeProfiles local cloud now))"
  defines "l \<equiv> Progress.completedDates (progress local)"
  defines "r \<equiv> Progress.completedDates (progress cloud)"
  shows "set merged = set l \<union> set r
       \<and> set l \<subseteq> set merged \<and> set r \<subseteq> set merged
       \<and> card (set l) \<le> card (set merged) \<and> card (set r) \<le> card (set merged)
       \<and> length merged = card (set merged)
       \<and> (distinct l \<longrightarrow> length l \<le> length merged)
       \<and> (distinct r \<longrightarrow> length r \<le> length merged)"
proof -
  have eq: "set merged = set l \<union> set r"
    unfolding merged_def l_def r_def by (simp add: mergedDates_eq set_Array_from_Set)
  have d: "distinct merged"
    unfolding merged_def by (simp add: mergedDates_eq distinct_Array_from_Set)
  have cl: "card (set l) \<le> card (set merged)"
    unfolding eq by (rule card_mono) auto
  have cr: "card (set r) \<le> card (set merged)"
    unfolding eq by (rule card_mono) auto
  have len: "length merged = card (set merged)"
    using d by (simp add: distinct_card)
  have ll: "distinct l \<longrightarrow> length l \<le> length merged"
    using cl len by (auto simp: distinct_card)
  have lr: "distinct r \<longrightarrow> length r \<le> length merged"
    using cr len by (auto simp: distinct_card)
  show ?thesis using eq cl cr len ll lr by auto
qed

theorem mergeProfiles_completedDates_union_witness:
  "distinct (Progress.completedDates (progress localProfile))
   \<and> distinct (Progress.completedDates (progress cloudProfile))
   \<and> length (Progress.completedDates (progress localProfile)) = 2
   \<and> length (Progress.completedDates (progress cloudProfile)) = 2
   \<and> 2 \<le> length (Progress.completedDates (progress (mergeProfiles localProfile cloudProfile 0)))
   \<and> Progress.completedDates (progress (mergeProfiles localProfile cloudProfile 0)) =
       [''Thu Jan 01 2026'', ''Fri Jan 02 2026'', ''Sat Jan 03 2026'']"
proof -
  have l: "Progress.completedDates (progress localProfile) = [''Thu Jan 01 2026'', ''Fri Jan 02 2026'']"
    by (simp add: localProfile_def)
  have r: "Progress.completedDates (progress cloudProfile) = [''Sat Jan 03 2026'', ''Fri Jan 02 2026'']"
    by (simp add: cloudProfile_def)
  have dl: "distinct (Progress.completedDates (progress localProfile))"
    unfolding l by simp
  have dr: "distinct (Progress.completedDates (progress cloudProfile))"
    unfolding r by simp
  have len: "length (Progress.completedDates (progress localProfile))
      \<le> length (Progress.completedDates (progress (mergeProfiles localProfile cloudProfile 0)))"
    using mergeProfiles_completedDates_union [of localProfile cloudProfile 0] dl by blast
  have l2: "length (Progress.completedDates (progress localProfile)) = 2"
    unfolding l by simp
  have r2: "length (Progress.completedDates (progress cloudProfile)) = 2"
    unfolding r by simp
  show ?thesis
    using dl dr l2 r2 len merged_example [of 0] by simp
qed

text \<open>
  Claim C6. The theme of \<open>mergeProfiles local cloud\<close> is the theme of \<open>cloud\<close> when
  \<open>lastSyncedAt cloud\<close> is strictly greater than \<open>lastSyncedAt local\<close>, and the theme of
  \<open>local\<close> otherwise; in particular the local theme is used when the two are equal.
\<close>

theorem mergeProfiles_theme:
  "Preferences.theme (preferences (mergeProfiles local cloud now)) =
     (if lastSyncedAt cloud > lastSyncedAt local
      then Preferences.theme (preferences cloud)
      else Preferences.theme (preferences local))
   \<and> (lastSyncedAt cloud = lastSyncedAt local \<longrightarrow>
        Preferences.theme (preferences (mergeProfiles local cloud now)) =
          Preferences.theme (preferences local))"
  by (simp add: mergeProfiles_def)

theorem mergeProfiles_theme_witness:
  "lastSyncedAt repeatedProfile = lastSyncedAt cloudProfile
   \<and> Preferences.theme (preferences (mergeProfiles cloudProfile repeatedProfile 0)) = sepia
   \<and> Preferences.theme (preferences (mergeProfiles repeatedProfile cloudProfile 0)) = light
   \<and> lastSyncedAt cloudProfile > lastSyncedAt localProfile
   \<and> Preferences.theme (preferences (mergeProfiles localProfile cloudProfile 0)) = sepia
   \<and> Preferences.theme (preferences (mergeProfiles cloudProfile localProfile 0)) = sepia"
  using mergeProfiles_theme [of cloudProfile repeatedProfile 0]
    mergeProfiles_theme [of repeatedProfile cloudProfile 0]
    mergeProfiles_theme [of localProfile cloudProfile 0]
    mergeProfiles_theme [of cloudProfile localProfile 0]
  by (simp add: repeatedProfile_def cloudProfile_def localProfile_def)

section \<open>The completed dates hold no date twice\<close>

text \<open>
  Claim C10. A completion toggle keeps the completed dates free of duplicates: it appends
  the key of the selected date when the key is absent, and otherwise removes every
  occurrence of it. The completed dates of \<open>mergeProfiles local cloud\<close> are free of
  duplicates whatever the two sides hold.
\<close>

theorem completedDates_distinct_preserved:
  fixes st :: AppState and local cloud :: UserProfile and now :: int
  defines "key \<equiv> toDateString (currentDate st)"
  shows "(distinct (completedDates st) \<longrightarrow> distinct (completedDates (toggleComplete st)))
       \<and> (key \<notin> set (completedDates st) \<longrightarrow>
            completedDates (toggleComplete st) = completedDates st @ [key])
       \<and> (key \<in> set (completedDates st) \<longrightarrow>
            key \<notin> set (completedDates (toggleComplete st)) \<and>
            set (completedDates (toggleComplete st)) = set (completedDates st) - {key})
       \<and> distinct (Progress.completedDates (progress (mergeProfiles local cloud now)))"
  unfolding key_def
  by (auto simp: toggleComplete_def Let_def mergedDates_eq distinct_Array_from_Set)

theorem completedDates_distinct_preserved_witness:
  "distinct (completedDates initialState)
   \<and> toDateString (currentDate initialState) \<notin> set (completedDates initialState)
   \<and> completedDates (toggleComplete initialState) = [''Thu Jan 01 2026'']
   \<and> distinct (completedDates (toggleComplete initialState))
   \<and> toDateString (currentDate (toggleComplete initialState))
        \<in> set (completedDates (toggleComplete initialState))
   \<and> completedDates (toggleComplete (toggleComplete initialState)) = []
   \<and> \<not> distinct (Progress.completedDates (progress repeatedProfile))
   \<and> distinct (Progress.completedDates (progress (mergeProfiles repeatedProfile cloudProfile 0)))"
proof -
  have t1: "completedDates (toggleComplete initialState) = [''Thu Jan 01 2026'']"
    by (simp add: toggleComplete_def initialState_def)
  have c1: "currentDate (toggleComplete initialState) = currentDate initialState"
    by (simp add: toggleComplete_def Let_def)
  have k: "toDateString (currentDate initialState) = ''Thu Jan 01 2026''"
    by (simp add: initialState_def)
  have t2: "completedDates (toggleComplete (toggleComplete initialState)) = []"
    using completedDates_distinct_preserved [of "toggleComplete initialState" repeatedProfile cloudProfile 0]
    unfolding t1 c1 k by simp
  have rep: "\<not> distinct (Progress.completedDates (progress repeatedProfile))"
    by (simp add: repeatedProfile_def)
  show ?thesis
    using completedDates_distinct_preserved [of initialState repeatedProfile cloudProfile 0]
      t1 t2 c1 k rep
    by (simp add: initialState_def)
qed

section \<open>Loading, the cache and the displayed content\<close>

text \<open>The states of the example runs.\<close>

lemma loadedJan1_eq:
  "loadedJan1 =
     initialState\<lparr>content := Some contentJan1, loadingState := SUCCESS,
       cache := [(''Thu Jan 01 2026'', contentJan1)]\<rparr>"
  by (simp add: loadedJan1_def fetchSettled_def loadContent_settled_def loadContent_effect_def
      loadContent_def initialState_def jan1_def)

lemma selectedJan3_eq:
  "selectedJan3 = initialState\<lparr>currentDate := jan3, loadingState := LOADING\<rparr>"
  by (simp add: selectedJan3_def selectedJan2_def selectDate_def handleDateSelect_def
      loadContent_effect_def loadContent_def initialState_def)

lemma backOnJan1_eq:
  "backOnJan1 =
     initialState\<lparr>currentDate := jan1, content := Some contentJan1, loadingState := SUCCESS,
       cache := [(''Thu Jan 01 2026'', contentJan1)]\<rparr>"
  by (simp add: backOnJan1_def loadedJan1_eq selectDate_def handleDateSelect_def
      loadContent_effect_def loadContent_def initialState_def jan1_def jan2_def)

text \<open>
  Claim C2. When the key of a date is in the cache, \<open>loadContent\<close> for that date calls no
  fetch (the second component is \<open>None\<close>): in one step it sets the displayed content to
  the cached record and the loading state to \<open>SUCCESS\<close>, and changes nothing else; the
  loading state \<open>LOADING\<close> is never set. The same holds for the selection of the date (the
  handler and the effect that follows it).
\<close>

theorem loadContent_cache_hit:
  assumes "map_of (cache st) (toDateString d) = Some c"
  shows "loadContent d st = (st\<lparr>content := Some c, loadingState := SUCCESS\<rparr>, None)
       \<and> selectDate d st =
           (st\<lparr>currentDate := d, isSearchMode := False, searchQuery := [],
               content := Some c, loadingState := SUCCESS\<rparr>, None)"
  using assms
  by (simp add: loadContent_def selectDate_def loadContent_effect_def handleDateSelect_def)

theorem loadContent_cache_hit_witness:
  "map_of (cache (fst (selectDate jan2 loadedJan1))) (toDateString jan1) = Some contentJan1
   \<and> loadingState (fst (selectDate jan2 loadedJan1)) = LOADING
   \<and> snd (selectDate jan1 (fst (selectDate jan2 loadedJan1))) = None
   \<and> loadingState (fst (selectDate jan1 (fst (selectDate jan2 loadedJan1)))) = SUCCESS
   \<and> content (fst (selectDate jan1 (fst (selectDate jan2 loadedJan1)))) = Some contentJan1"
proof -
  have st: "fst (selectDate jan2 loadedJan1) =
      loadedJan1\<lparr>currentDate := jan2, isSearchMode := False, searchQuery := [],
        loadingState := LOADING\<rparr>"
    by (simp add: loadedJan1_eq selectDate_def handleDateSelect_def loadContent_effect_def
        loadContent_def jan2_def)
  have hit: "map_of (cache (fst (selectDate jan2 loadedJan1))) (toDateString jan1) = Some contentJan1"
    unfolding st by (simp add: loadedJan1_eq jan1_def)
  show ?thesis
    using loadContent_cache_hit [OF hit] hit unfolding st by simp
qed

text \<open>The fetcher fails exactly on a rejected request, an absent or empty text, and a text that does not parse.\<close>

lemma fetch_fails_iff:
  "(\<exists>e. fetchDevotionalForDate JSON_parse ds response = Inl e) \<longleftrightarrow>
     (response = Rejected \<or> response = Response None \<or> response = Response (Some [])
      \<or> (\<exists>t. response = Response (Some t) \<and> JSON_parse t = None))"
  by (auto simp: fetchDevotionalForDate_def split: ai_response.splits option.splits)

text \<open>
  Claim C9. Let a date be selected whose key is not in the cache, and let its request be
  rejected or return an absent, empty or unparseable text. Then the fetcher fails; the
  selection sets the loading state to \<open>LOADING\<close> and calls the fetcher; when the fetch
  fails the loading state becomes \<open>ERROR\<close>, no further fetch is called and the cache is
  the one from before the selection. Whatever the state is when the failure arrives, the
  failure changes the loading state only.
\<close>

theorem failed_fetch_error_no_cache_write:
  assumes miss: "map_of (cache st) (toDateString d) = None"
    and bad: "response = Rejected \<or> response = Response None \<or> response = Response (Some [])
      \<or> (\<exists>t. response = Response (Some t) \<and> JSON_parse t = None)"
  shows "\<exists>e. fetchDevotionalForDate JSON_parse (formatDateFull d) response = Inl e
       \<and> selectDate d st =
            (handleDateSelect d st\<lparr>loadingState := LOADING\<rparr>, Some (formatDateFull d))
       \<and> fetchSettled d (Inl e) (fst (selectDate d st)) =
            (handleDateSelect d st\<lparr>loadingState := ERROR\<rparr>, None)
       \<and> cache (fst (fetchSettled d (Inl e) (fst (selectDate d st)))) = cache st
       \<and> (\<forall>st'. loadContent_settled d (Inl e) st' = st'\<lparr>loadingState := ERROR\<rparr>)"
proof -
  from bad obtain e
    where e: "fetchDevotionalForDate JSON_parse (formatDateFull d) response = Inl e"
    using fetch_fails_iff by blast
  have sel: "selectDate d st =
      (handleDateSelect d st\<lparr>loadingState := LOADING\<rparr>, Some (formatDateFull d))"
    using miss
    by (simp add: loadContent_def selectDate_def loadContent_effect_def handleDateSelect_def)
  show ?thesis using e sel
    by (auto simp: fetchSettled_def loadContent_settled_def handleDateSelect_def)
qed

theorem failed_fetch_error_no_cache_write_witness:
  "map_of (cache loadedJan1) (toDateString jan2) = None
   \<and> JSON_parse_example ''upstream connect error'' = None
   \<and> fetchDevotionalForDate JSON_parse_example (formatDateFull jan2)
        (Response (Some ''upstream connect error'')) = Inl SyntaxError
   \<and> loadingState (fst (selectDate jan2 loadedJan1)) = LOADING
   \<and> loadingState (fst (fetchSettled jan2 (Inl SyntaxError) (fst (selectDate jan2 loadedJan1)))) = ERROR
   \<and> cache (fst (fetchSettled jan2 (Inl SyntaxError) (fst (selectDate jan2 loadedJan1)))) =
       [(''Thu Jan 01 2026'', contentJan1)]"
proof -
  have miss: "map_of (cache loadedJan1) (toDateString jan2) = None"
    by (simp add: loadedJan1_eq jan2_def)
  have np: "JSON_parse_example ''upstream connect error'' = None"
    by (simp add: JSON_parse_example_def responseText_def)
  have bad: "Response (Some ''upstream connect error'') = Rejected
      \<or> Response (Some ''upstream connect error'') = Response None
      \<or> Response (Some ''upstream connect error'') = Response (Some [])
      \<or> (\<exists>t. Response (Some ''upstream connect error'') = Response (Some t)
            \<and> JSON_parse_example t = None)"
    using np by blast
  have f: "fetchDevotionalForDate JSON_parse_example (formatDateFull jan2)
        (Response (Some ''upstream connect error'')) = Inl SyntaxError"
    by (simp add: fetchDevotionalForDate_def np)
  have c: "cache loadedJan1 = [(''Thu Jan 01 2026'', contentJan1)]"
    by (simp add: loadedJan1_eq)
  from failed_fetch_error_no_cache_write [OF miss bad]
  have s1: "selectDate jan2 loadedJan1 =
          (handleDateSelect jan2 loadedJan1\<lparr>loadingState := LOADING\<rparr>, Some (formatDateFull jan2))"
    and s2: "fetchSettled jan2 (Inl SyntaxError) (fst (selectDate jan2 loadedJan1)) =
          (handleDateSelect jan2 loadedJan1\<lparr>loadingState := ERROR\<rparr>, None)"
    and s3: "cache (fst (fetchSettled jan2 (Inl SyntaxError) (fst (selectDate jan2 loadedJan1)))) =
          cache loadedJan1"
    unfolding f by blast+
  have l1: "loadingState (fst (selectDate jan2 loadedJan1)) = LOADING"
    by (simp add: s1)
  have l2: "loadingState (fst (fetchSettled jan2 (Inl SyntaxError) (fst (selectDate jan2 loadedJan1))))
      = ERROR"
    by (simp add: s2)
  have l3: "cache (fst (fetchSettled jan2 (Inl SyntaxError) (fst (selectDate jan2 loadedJan1)))) =
       [(''Thu Jan 01 2026'', contentJan1)]"
    by (simp only: s3 c)
  show ?thesis using miss np f l1 l2 l3 by blast
qed

section \<open>Connectivity\<close>

text \<open>
  Claim C8, as amended. On a connectivity-restored event the sync status becomes
  \<open>synced\<close> whatever it was before, a prior \<open>error\<close> included, and nothing else of the
  state changes.
\<close>

theorem handleOnline_always_synced:
  "syncStatus (handleOnline st) = synced \<and> handleOnline st = st\<lparr>syncStatus := synced\<rparr>"
  by (simp add: handleOnline_def)

text \<open>
  Claim C8 as stated fails: after a failed save the status is \<open>error\<close>, and the
  connectivity event alone turns it into \<open>synced\<close>.
\<close>

theorem handleOnline_resolves_error:
  "syncStatus saveFailed = error \<and> syncStatus (handleOnline saveFailed) = synced"
  by (simp add: saveFailed_def handleOnline_def persistChanges_settled_def sync_effect_def
      persistChanges_def initApp_def)

section \<open>Editing\<close>

text \<open>
  Claim C4, as amended. When no record is loaded (\<open>content\<close> is null),
  \<open>handleContentUpdate\<close> returns without an error and leaves the whole state, the cache
  included, as it was.
\<close>

theorem handleContentUpdate_nothing_loaded:
  assumes "content st = None"
  shows "handleContentUpdate u st = st"
  using assms by (simp add: handleContentUpdate_def)

text \<open>
  Claim C4 as stated fails: on the first render no record is loaded and the key of the
  selected date is absent from the cache; the update does not fail, it is ignored.
\<close>

theorem handleContentUpdate_absent_ignored:
  "content initialState = None
   \<and> map_of (cache initialState) (toDateString (currentDate initialState)) = None
   \<and> handleContentUpdate editPassage initialState = initialState"
  by (simp add: handleContentUpdate_def initialState_def)

theorem handleContentUpdate_nothing_loaded_witness:
  "content selectedJan3 = None
   \<and> handleContentUpdate editPassage selectedJan3 = selectedJan3"
proof -
  have n: "content selectedJan3 = None"
    by (simp add: selectedJan3_eq initialState_def)
  show ?thesis
    using handleContentUpdate_nothing_loaded [OF n, of editPassage] n by simp
qed

text \<open>An update object leaves every property that it does not name as it was.\<close>

lemma spread_frame: "\<not> supplied f u \<Longrightarrow> fieldOf f (spread c u) = fieldOf f c"
  by (cases f) (simp_all add: spread_def override_def)

lemma map_fst_update_present:
  "map_of al k = Some v \<Longrightarrow> map fst (AList.update k w al) = map fst al"
  by (induction al) (auto split: if_splits)

lemma editPassage_single: "supplied f editPassage \<Longrightarrow> f = F_customPassageText"
  by (cases f) (simp_all add: editPassage_def)

text \<open>
  The update on a state in which the displayed record is the record cached under the key
  of the selected date, for an update that names the single field \<open>X\<close>. After
  \<open>handleContentUpdate\<close> the cache holds, under that key, the record merged with the
  update, which is also the displayed record; every field other than \<open>X\<close> has its prior
  value; every cache entry under another key has its prior value, and the keys of the
  cache and their order are unchanged; nothing else of the state changes, and the effect
  that follows the change of the cache finds the key in the cache and calls no fetch.
\<close>

lemma handleContentUpdate_frame:
  fixes st :: AppState and u :: PartialContent and c :: DevotionalContent and X :: Field
  defines "key \<equiv> toDateString (currentDate st)"
  defines "st' \<equiv> handleContentUpdate u st"
  assumes loaded: "content st = Some c"
    and cached: "map_of (cache st) key = Some c"
    and single: "\<forall>f. supplied f u \<longrightarrow> f = X"
  shows "\<exists>c'. map_of (cache st') key = Some c' \<and> content st' = Some c'
           \<and> c' = spread c u
           \<and> (\<forall>f. f \<noteq> X \<longrightarrow> fieldOf f c' = fieldOf f c)
           \<and> (\<forall>k. k \<noteq> key \<longrightarrow> map_of (cache st') k = map_of (cache st) k)
           \<and> map fst (cache st') = map fst (cache st)
           \<and> st' = st\<lparr>content := Some c', cache := cache st'\<rparr>
           \<and> loadContent_effect st' = (st'\<lparr>loadingState := SUCCESS\<rparr>, None)"
proof -
  have st': "st' = st\<lparr>content := Some (spread c u),
                      cache := AList.update key (spread c u) (cache st)\<rparr>"
    unfolding st'_def key_def using loaded by (simp add: handleContentUpdate_def Let_def)
  have frame: "\<forall>f. f \<noteq> X \<longrightarrow> fieldOf f (spread c u) = fieldOf f c"
    using single spread_frame by blast
  have keys: "map fst (cache st') = map fst (cache st)"
    using cached by (simp add: st' map_fst_update_present)
  have others: "\<forall>k. k \<noteq> key \<longrightarrow> map_of (cache st') k = map_of (cache st) k"
    by (simp add: st' update_conv')
  have here: "map_of (cache st') key = Some (spread c u)"
    by (simp add: st' update_conv')
  have cont: "content st' = Some (spread c u)"
    by (simp add: st')
  have rest: "st' = st\<lparr>content := Some (spread c u), cache := cache st'\<rparr>"
    by (simp add: st')
  have cur: "currentDate st' = currentDate st"
    by (simp add: st')
  have eff: "loadContent_effect st' = (st'\<lparr>loadingState := SUCCESS\<rparr>, None)"
    using here cont unfolding key_def
    by (simp add: loadContent_effect_def loadContent_def cur)
  show ?thesis
    using frame keys others here cont rest eff by blast
qed

lemma handleContentUpdate_frame_example:
  "content loadedJan1 = Some contentJan1
   \<and> map_of (cache loadedJan1) (toDateString (currentDate loadedJan1)) = Some contentJan1
   \<and> content (handleContentUpdate editPassage loadedJan1) =
       Some (contentJan1\<lparr>customPassageText := Some ''And God said, Let there be light.''\<rparr>)
   \<and> cache (handleContentUpdate editPassage loadedJan1) =
       [(''Thu Jan 01 2026'',
         contentJan1\<lparr>customPassageText := Some ''And God said, Let there be light.''\<rparr>)]
   \<and> reflection (the (content (handleContentUpdate editPassage loadedJan1))) =
       reflection contentJan1"
proof -
  have l: "content loadedJan1 = Some contentJan1"
    by (simp add: loadedJan1_eq)
  have k: "toDateString (currentDate loadedJan1) = ''Thu Jan 01 2026''"
    by (simp add: loadedJan1_eq initialState_def)
  have c: "map_of (cache loadedJan1) (toDateString (currentDate loadedJan1)) = Some contentJan1"
    unfolding k by (simp add: loadedJan1_eq)
  have s: "\<forall>f. supplied f editPassage \<longrightarrow> f = F_customPassageText"
    using editPassage_single by blast
  have sp: "spread contentJan1 editPassage =
      contentJan1\<lparr>customPassageText := Some ''And God said, Let there be light.''\<rparr>"
    by (simp add: spread_def override_def editPassage_def contentJan1_def devotional_def)
  have ca: "cache loadedJan1 = [(''Thu Jan 01 2026'', contentJan1)]"
    by (simp add: loadedJan1_eq)
  from handleContentUpdate_frame [OF l c s]
  obtain c' where h: "map_of (cache (handleContentUpdate editPassage loadedJan1))
        (toDateString (currentDate loadedJan1)) = Some c'"
      and d: "content (handleContentUpdate editPassage loadedJan1) = Some c'"
      and e: "c' = spread contentJan1 editPassage"
      and fr: "\<forall>f. f \<noteq> F_customPassageText \<longrightarrow> fieldOf f c' = fieldOf f contentJan1"
      and ks: "map fst (cache (handleContentUpdate editPassage loadedJan1)) = map fst (cache loadedJan1)"
    by blast
  have d': "content (handleContentUpdate editPassage loadedJan1) =
       Some (contentJan1\<lparr>customPassageText := Some ''And God said, Let there be light.''\<rparr>)"
    using d e sp by simp
  have "fieldOf F_reflection c' = fieldOf F_reflection contentJan1"
    using fr [rule_format, of F_reflection] by simp
  then have r: "reflection (the (content (handleContentUpdate editPassage loadedJan1))) =
       reflection contentJan1"
    using d by simp
  have "\<exists>v. cache (handleContentUpdate editPassage loadedJan1) = [(''Thu Jan 01 2026'', v)]"
    using ks unfolding ca by (cases "cache (handleContentUpdate editPassage loadedJan1)") auto
  then have cc: "cache (handleContentUpdate editPassage loadedJan1) =
       [(''Thu Jan 01 2026'',
         contentJan1\<lparr>customPassageText := Some ''And God said, Let there be light.''\<rparr>)]"
    using h e sp unfolding k by auto
  show ?thesis using l c d' cc r by blast
qed

text \<open>The edit of the reflection while 2 January loads.\<close>

lemma loadingJan2_eq:
  "loadingJan2 =
     initialState\<lparr>currentDate := jan2, content := Some contentJan1, loadingState := LOADING,
       cache := [(''Thu Jan 01 2026'', contentJan1)]\<rparr>"
  by (simp add: loadingJan2_def loadedJan1_eq selectDate_def handleDateSelect_def
      loadContent_effect_def loadContent_def initialState_def jan2_def)

lemma spread_editReflection:
  "spread contentJan1 editReflection =
     contentJan1\<lparr>reflection := ''The Creator speaks, and there is light.''\<rparr>"
  by (simp add: spread_def override_def editReflection_def contentJan1_def devotional_def)

text \<open>
  Claim C3: an update that names a single field changes only that field of the cached
  record, and every cache entry under another key keeps its prior value. The code breaks
  this when the displayed record is not the record of the selected date. With the record
  of 1 January displayed and 2 January selected and loading, the update of the reflection
  leaves the cached record of 1 January without the edit and creates an entry under the
  key of 2 January, absent before, that holds the edited record of 1 January; the effect
  that follows finds that entry and displays it as the loaded content of 2 January.
\<close>

theorem handleContentUpdate_writes_selected_key:
  "content loadingJan2 = Some contentJan1
   \<and> toDateString (currentDate loadingJan2) = ''Fri Jan 02 2026''
   \<and> loadingState loadingJan2 = LOADING
   \<and> cache loadingJan2 = [(''Thu Jan 01 2026'', contentJan1)]
   \<and> map_of (cache loadingJan2) ''Fri Jan 02 2026'' = None
   \<and> cache (handleContentUpdate editReflection loadingJan2) =
       [(''Thu Jan 01 2026'', contentJan1),
        (''Fri Jan 02 2026'',
         contentJan1\<lparr>reflection := ''The Creator speaks, and there is light.''\<rparr>)]
   \<and> map_of (cache (handleContentUpdate editReflection loadingJan2)) ''Fri Jan 02 2026'' =
       Some (contentJan1\<lparr>reflection := ''The Creator speaks, and there is light.''\<rparr>)
   \<and> map_of (cache (handleContentUpdate editReflection loadingJan2)) ''Thu Jan 01 2026'' =
       Some contentJan1
   \<and> content (handleContentUpdate editReflection loadingJan2) =
       Some (contentJan1\<lparr>reflection := ''The Creator speaks, and there is light.''\<rparr>)
   \<and> loadingState (fst (loadContent_effect (handleContentUpdate editReflection loadingJan2))) =
       SUCCESS
   \<and> snd (loadContent_effect (handleContentUpdate editReflection loadingJan2)) = None"
proof -
  have u: "handleContentUpdate editReflection loadingJan2 =
      loadingJan2\<lparr>content :=
          Some (contentJan1\<lparr>reflection := ''The Creator speaks, and there is light.''\<rparr>),
        cache := [(''Thu Jan 01 2026'', contentJan1),
          (''Fri Jan 02 2026'',
           contentJan1\<lparr>reflection := ''The Creator speaks, and there is light.''\<rparr>)]\<rparr>"
    by (simp add: handleContentUpdate_def Let_def loadingJan2_eq spread_editReflection jan2_def)
  show ?thesis
    unfolding u
    by (simp add: loadingJan2_eq loadContent_effect_def loadContent_def Let_def jan2_def)
qed

section \<open>A fetch that resolves after the selection has moved on\<close>

text \<open>
  Claim C1, as amended. Let the fetch for a date resolve while a date with another key is
  selected. The record is written to the cache under the key of the fetched date only:
  the entry of the selected date, and of every other key, is unchanged. The record is not
  discarded: it becomes the displayed content, with loading state \<open>SUCCESS\<close>. The effect
  that the change of the cache triggers then loads the selected date again: when that
  date is cached its record is displayed again, and when it is not the fetched record
  stays in \<open>content\<close>, the loading state becomes \<open>LOADING\<close> and the selected date is
  fetched anew.
\<close>

theorem stale_result_applied:
  fixes dA :: Date and data :: DevotionalContent and st :: AppState
  assumes "toDateString dA \<noteq> toDateString (currentDate st)"
  defines "st' \<equiv> loadContent_settled dA (Inr data) st"
  shows "map_of (cache st') (toDateString (currentDate st)) =
           map_of (cache st) (toDateString (currentDate st))
      \<and> (\<forall>k. k \<noteq> toDateString dA \<longrightarrow> map_of (cache st') k = map_of (cache st) k)
      \<and> map_of (cache st') (toDateString dA) = Some data
      \<and> content st' = Some data \<and> loadingState st' = SUCCESS
      \<and> currentDate st' = currentDate st
      \<and> fetchSettled dA (Inr data) st =
          (case map_of (cache st) (toDateString (currentDate st)) of
             Some b \<Rightarrow> (st'\<lparr>content := Some b, loadingState := SUCCESS\<rparr>, None)
           | None \<Rightarrow> (st'\<lparr>loadingState := LOADING\<rparr>, Some (formatDateFull (currentDate st))))"
  using assms(1) unfolding st'_def
  by (auto simp: loadContent_settled_def fetchSettled_def loadContent_effect_def loadContent_def
      update_conv' split: option.splits)

text \<open>
  Claim C1 as stated fails: 2 January is selected, then 3 January while the first fetch is
  in flight; nothing is displayed. When the fetch for 2 January resolves, its record is
  the displayed content although 3 January is selected, before and after the effect.
\<close>

theorem stale_result_displayed:
  "toDateString jan2 \<noteq> toDateString jan3
   \<and> snd (selectDate jan2 initialState) = Some ''Friday, January 2, 2026''
   \<and> currentDate selectedJan3 = jan3
   \<and> content selectedJan3 = None
   \<and> content (loadContent_settled jan2 (Inr contentJan2) selectedJan3) = Some contentJan2
   \<and> loadingState (loadContent_settled jan2 (Inr contentJan2) selectedJan3) = SUCCESS
   \<and> currentDate (loadContent_settled jan2 (Inr contentJan2) selectedJan3) = jan3
   \<and> content (fst (fetchSettled jan2 (Inr contentJan2) selectedJan3)) = Some contentJan2"
  by (simp add: selectedJan3_eq loadContent_settled_def fetchSettled_def loadContent_effect_def
      loadContent_def selectDate_def handleDateSelect_def formatDateFull_def initialState_def
      jan2_def jan3_def)

theorem stale_result_applied_witness:
  "toDateString jan2 \<noteq> toDateString (currentDate backOnJan1)
   \<and> content backOnJan1 = Some contentJan1
   \<and> content (loadContent_settled jan2 (Inr contentJan2) backOnJan1) = Some contentJan2
   \<and> map_of (cache (loadContent_settled jan2 (Inr contentJan2) backOnJan1)) ''Thu Jan 01 2026''
       = Some contentJan1
   \<and> map_of (cache (loadContent_settled jan2 (Inr contentJan2) backOnJan1)) ''Fri Jan 02 2026''
       = Some contentJan2
   \<and> content (fst (fetchSettled jan2 (Inr contentJan2) backOnJan1)) = Some contentJan1
   \<and> snd (fetchSettled jan2 (Inr contentJan2) backOnJan1) = None"
proof -
  have cur: "toDateString (currentDate backOnJan1) = ''Thu Jan 01 2026''"
    by (simp add: backOnJan1_eq jan1_def)
  have k2: "toDateString jan2 = ''Fri Jan 02 2026''"
    by (simp add: jan2_def)
  have ne: "toDateString jan2 \<noteq> toDateString (currentDate backOnJan1)"
    unfolding cur k2 by simp
  have c: "map_of (cache backOnJan1) ''Thu Jan 01 2026'' = Some contentJan1"
    by (simp add: backOnJan1_eq)
  have d: "content backOnJan1 = Some contentJan1"
    by (simp add: backOnJan1_eq)
  show ?thesis
    using stale_result_applied [OF ne, of contentJan2] ne d
    unfolding cur k2 c by simp
qed

section \<open>Search\<close>

text \<open>The sort keeps the elements, and orders entries whose dates are valid by their time.\<close>

lemma set_insertBy: "set (insertBy cmp x ys) = insert x (set ys)"
  by (induction ys) auto

lemma set_Array_sort: "set (Array_sort comparefn xs) = set xs"
  by (induction xs) (auto simp: Array_sort_def set_insertBy)

lemma SortCompare_valid:
  "getTime (date a) = Some x \<Longrightarrow> getTime (date b) = Some y \<Longrightarrow>
     SortCompare (compareDates getTime) a b = x - y"
  by (simp add: SortCompare_def compareDates_def)

lemma notLaterThan_trans:
  "notLaterThan g a b \<Longrightarrow> notLaterThan g b c \<Longrightarrow> notLaterThan g a c"
  by (auto simp: notLaterThan_def split: option.splits)

lemma insertBy_sorted:
  assumes "\<forall>y \<in> set (x # ys). getTime (date y) \<noteq> None"
    and "sorted_wrt (notLaterThan getTime) ys"
  shows "sorted_wrt (notLaterThan getTime) (insertBy (SortCompare (compareDates getTime)) x ys)"
  using assms
proof (induction ys)
  case Nil
  then show ?case by simp
next
  case (Cons y ys)
  from Cons.prems(1) obtain tx ty
    where tx: "getTime (date x) = Some tx" and ty: "getTime (date y) = Some ty"
    by auto
  have cmp: "SortCompare (compareDates getTime) x y = tx - ty"
    by (rule SortCompare_valid [OF tx ty])
  show ?case
  proof (cases "tx \<le> ty")
    case True
    then have xy: "notLaterThan getTime x y" by (simp add: notLaterThan_def tx ty)
    have "\<forall>z \<in> set ys. notLaterThan getTime x z"
      using Cons.prems(2) xy notLaterThan_trans by auto
    then show ?thesis using True cmp xy Cons.prems(2) by simp
  next
    case False
    then have yx: "notLaterThan getTime y x" by (simp add: notLaterThan_def tx ty)
    have ih: "sorted_wrt (notLaterThan getTime)
        (insertBy (SortCompare (compareDates getTime)) x ys)"
      using Cons.IH Cons.prems by simp
    show ?thesis using False cmp yx ih Cons.prems(2) by (auto simp: set_insertBy)
  qed
qed

lemma Array_sort_sorted:
  "\<forall>y \<in> set xs. getTime (date y) \<noteq> None \<Longrightarrow>
     sorted_wrt (notLaterThan getTime) (Array_sort (compareDates getTime) xs)"
proof (induction xs)
  case Nil
  then show ?case by (simp add: Array_sort_def)
next
  case (Cons x xs)
  have "sorted_wrt (notLaterThan getTime) (Array_sort (compareDates getTime) xs)"
    using Cons by simp
  moreover have "\<forall>y \<in> set (x # Array_sort (compareDates getTime) xs). getTime (date y) \<noteq> None"
    using Cons.prems by (simp add: set_Array_sort)
  ultimately have "sorted_wrt (notLaterThan getTime)
      (insertBy (SortCompare (compareDates getTime)) x (Array_sort (compareDates getTime) xs))"
    by (rule insertBy_sorted [rotated])
  then show ?case by (simp add: Array_sort_def)
qed

text \<open>
  Claim C7. For every cache and every query, when the date string of every matched entry
  is a valid date, the sequence \<open>searchResults\<close> returns is in ascending order of the
  entries' dates. For a query that is not blank the sequence consists of the cached
  entries that match.
\<close>

theorem searchResults_sorted:
  assumes "\<forall>item \<in> set (Object_values c).
             matchesQuery (toLowerCase query) item \<longrightarrow> getTime (date item) \<noteq> None"
  shows "sorted_wrt (notLaterThan getTime) (searchResults getTime c query)
       \<and> (trim query \<noteq> [] \<longrightarrow>
            set (searchResults getTime c query) =
              {item \<in> set (Object_values c). matchesQuery (toLowerCase query) item})"
  using assms
  by (auto simp: searchResults_def Let_def set_Array_sort intro!: Array_sort_sorted)

text \<open>The search for \<open>Genesis\<close> in the cache of three days.\<close>

lemma toLowerCase_Genesis: "toLowerCase ''Genesis'' = ''genesis''"
  by code_simp

lemma trim_Genesis: "trim ''Genesis'' = ''Genesis''"
  by (simp add: trim_def isWhiteSpace_def)

lemma matches_days:
  "matchesQuery ''genesis'' contentJan1" "matchesQuery ''genesis'' contentJan2"
  "matchesQuery ''genesis'' contentJan3"
  by code_simp+

lemma times_days:
  "getTime2026 (date contentJan1) = Some 1767225600000"
  "getTime2026 (date contentJan2) = Some 1767312000000"
  "getTime2026 (date contentJan3) = Some 1767398400000"
  by (simp_all add: getTime2026_def contentJan1_def contentJan2_def contentJan3_def devotional_def)

lemma search_example:
  "searchResults getTime2026 cacheThreeDays ''Genesis'' = [contentJan1, contentJan2, contentJan3]"
  by (simp add: searchResults_def trim_Genesis toLowerCase_Genesis Object_values_def
      cacheThreeDays_def matches_days Array_sort_def SortCompare_def compareDates_def times_days)

theorem searchResults_sorted_witness:
  "searchResults getTime2026 cacheThreeDays ''Genesis'' = [contentJan1, contentJan2, contentJan3]
   \<and> Object_values cacheThreeDays = [contentJan3, contentJan1, contentJan2]
   \<and> sorted_wrt (notLaterThan getTime2026) (searchResults getTime2026 cacheThreeDays ''Genesis'')
   \<and> notLaterThan getTime2026 contentJan1 contentJan2
   \<and> \<not> notLaterThan getTime2026 contentJan3 contentJan1"
proof -
  have v: "Object_values cacheThreeDays = [contentJan3, contentJan1, contentJan2]"
    by (simp add: Object_values_def cacheThreeDays_def)
  have h: "\<forall>item \<in> set (Object_values cacheThreeDays).
             matchesQuery (toLowerCase ''Genesis'') item \<longrightarrow> getTime2026 (date item) \<noteq> None"
    unfolding v by (simp add: times_days)
  have a: "notLaterThan getTime2026 contentJan1 contentJan2"
    by (simp add: notLaterThan_def times_days)
  have b: "\<not> notLaterThan getTime2026 contentJan3 contentJan1"
    by (simp add: notLaterThan_def times_days)
  show ?thesis
    using searchResults_sorted [OF h] search_example v a b by blast
qed

end
